theory Spec2Isabelle
  imports Main
begin

section \<open>The Xendit payment plugin: callback verification and webhook handling\<close>

text \<open>
  A shallow embedding of \<^verbatim>\<open>xendit.service.ts\<close>, \<^verbatim>\<open>xendit.controller.ts\<close> and
  \<^verbatim>\<open>xendit.handler.ts\<close>. Strings are \<^typ>\<open>string\<close>; a TypeScript value that may be
  \<^verbatim>\<open>undefined\<close> is an \<^typ>\<open>'a option\<close>; a thrown exception (a rejected promise) is the
  left summand of a sum type. Every \<^verbatim>\<open>await\<close> is sequential, so a run of the webhook
  is the list of the effects it performs, in order, and the exception it ends with, if any.
\<close>

subsection \<open>Plugin options and the values \<^verbatim>\<open>verifyCallback\<close> returns\<close>

text \<open>\<^verbatim>\<open>XenditPluginOptions\<close> of \<^verbatim>\<open>types.ts\<close>; the optional fields are options.\<close>

record XenditPluginOptions =
  apiKey :: string
  callbackToken :: "string option"
  invoiceDuration :: "nat option"
  paymentMethods :: "string list option"

text \<open>
  \<^verbatim>\<open>verifyCallback\<close> returns the value of a JavaScript \<^verbatim>\<open>&&\<close>: its left operand when that
  is falsy (\<^verbatim>\<open>undefined\<close> from the optional chain, or the length \<^verbatim>\<open>0\<close>), its right
  operand (a boolean) otherwise.
\<close>

datatype js_value = JUndefined | JNumber nat | JBoolean bool

fun truthy :: "js_value \<Rightarrow> bool" where
  "truthy JUndefined = False"
| "truthy (JNumber n) = (n \<noteq> 0)"
| "truthy (JBoolean b) = b"

text \<open>\<^verbatim>\<open>this.options?.callbackToken\<close>: undefined when the options or the field are.\<close>

definition configuredToken :: "XenditPluginOptions option \<Rightarrow> string option" where
  "configuredToken options =
     (case options of None \<Rightarrow> None | Some opts \<Rightarrow> callbackToken opts)"

text \<open>\<^verbatim>\<open>this.options?.callbackToken?.length\<close>.\<close>

definition configuredTokenLength :: "XenditPluginOptions option \<Rightarrow> js_value" where
  "configuredTokenLength options =
     (case configuredToken options of None \<Rightarrow> JUndefined | Some t \<Rightarrow> JNumber (length t))"

text \<open>
  \<^verbatim>\<open>XenditService.verifyCallback\<close>: the result answers "is there a mismatch?".
  \<^verbatim>\<open>!==\<close> on two values that are each a string or \<^verbatim>\<open>undefined\<close> is inequality of
  options.
\<close>

definition verifyCallback :: "XenditPluginOptions option \<Rightarrow> string option \<Rightarrow> js_value" where
  "verifyCallback options presented =
     (if truthy (configuredTokenLength options)
      then JBoolean (configuredToken options \<noteq> presented)
      else configuredTokenLength options)"

subsection \<open>Data of the webhook\<close>

text \<open>
  \<^verbatim>\<open>XenditCallbackRequest\<close> of \<^verbatim>\<open>types.ts\<close>. The field \<^verbatim>\<open>id\<close> is \<open>callback_id\<close> here.
  Dates are the strings of the JSON body; \<^verbatim>\<open>amount\<close> is carried, never computed with.
\<close>

record XenditCallbackRequest =
  callback_id :: string
  amount :: int
  status :: string
  created :: string
  is_high :: bool
  updated :: string
  user_id :: string
  currency :: string
  description :: string
  external_id :: string
  payer_email :: string
  merchant_name :: string

type_synonym ID = string

text \<open>The fields of a Vendure \<^verbatim>\<open>Order\<close> that the controller reads.\<close>

record Order =
  order_id :: ID
  order_code :: string
  order_state :: string

text \<open>A \<^verbatim>\<open>PaymentMethod\<close>: its \<^verbatim>\<open>code\<close> and its \<^verbatim>\<open>handler.code\<close>.\<close>

record PaymentMethod =
  method_code :: string
  handler_code :: string

text \<open>The input of \<^verbatim>\<open>addPaymentToOrder\<close>; its field \<^verbatim>\<open>method\<close> is \<open>input_method\<close> here.\<close>

record PaymentInput =
  input_method :: string
  metadata :: XenditCallbackRequest

text \<open>
  The argument of \<^verbatim>\<open>requestContextService.create\<close>; its \<^verbatim>\<open>req\<close> field, the request
  itself, is left out.
\<close>

record CreateContextInput =
  apiType :: string
  channelOrToken :: string
  languageCode :: string

text \<open>What can be thrown: a plain \<^verbatim>\<open>Error\<close> or Vendure's \<^verbatim>\<open>InternalServerError\<close>.\<close>

datatype error = Error string | InternalServerError string

fun message :: "error \<Rightarrow> string" where
  "message (Error m) = m"
| "message (InternalServerError m) = m"

text \<open>\<^verbatim>\<open>transitionToState\<close> returns the order or an \<^verbatim>\<open>OrderStateTransitionError\<close>.\<close>

datatype TransitionResult = Transitioned Order | OrderStateTransitionError string

text \<open>\<^verbatim>\<open>addPaymentToOrder\<close> returns the order or an error result with a message.\<close>

datatype AddPaymentResult = PaidOrder Order | AddPaymentErrorResult string

text \<open>
  The services injected into the controller. Each call returns its result or throws
  (\<open>Inl\<close>). \<open>connection_find\<close> is
  \<^verbatim>\<open>connection.getRepository(ctx, PaymentMethod).find()\<close>. The request context is a type
  parameter: the controller only passes it on.
\<close>

record 'ctx Services =
  xenditService_verifyCallback :: "string option \<Rightarrow> error + js_value"
  requestContextService_create :: "CreateContextInput \<Rightarrow> error + 'ctx"
  orderService_findOneByCode :: "'ctx \<Rightarrow> string \<Rightarrow> error + Order option"
  orderService_transitionToState :: "'ctx \<Rightarrow> ID \<Rightarrow> string \<Rightarrow> error + TransitionResult"
  orderService_addPaymentToOrder :: "'ctx \<Rightarrow> ID \<Rightarrow> PaymentInput \<Rightarrow> error + AddPaymentResult"
  connection_find :: "'ctx \<Rightarrow> error + PaymentMethod list"

text \<open>
  The controller wired to the \<^verbatim>\<open>XenditService\<close> of this repository: its
  \<^verbatim>\<open>verifyCallback\<close> has no statement that throws, so the promise always resolves.
\<close>

definition withXenditService ::
  "XenditPluginOptions option \<Rightarrow> 'ctx Services \<Rightarrow> 'ctx Services" where
  "withXenditService options S =
     S\<lparr>xenditService_verifyCallback := (\<lambda>presented. Inr (verifyCallback options presented))\<rparr>"

text \<open>The effects of a run, in the order they happen.\<close>

datatype 'ctx effect =
    LoggerError string string
  | LoggerInfo string string
  | ConsoleLogToken string
  | ConsoleLogPayment XenditCallbackRequest
  | Send nat string
  | VerifyCallback string
  | CreateContext CreateContextInput
  | FindOneByCode 'ctx string
  | TransitionToState 'ctx ID string
  | FindPaymentMethods 'ctx
  | AddPaymentToOrder 'ctx ID PaymentInput

text \<open>A run: its effects, and the exception it ends with (\<open>None\<close>: it returns).\<close>

datatype 'ctx run = Run (trace: "'ctx effect list") (thrown: "error option")

definition after :: "'ctx effect list \<Rightarrow> 'ctx run \<Rightarrow> 'ctx run" where
  "after es r = Run (es @ trace r) (thrown r)"

fun isTransitionToState :: "'ctx effect \<Rightarrow> bool" where
  "isTransitionToState (TransitionToState _ _ _) = True"
| "isTransitionToState _ = False"

fun isAddPaymentToOrder :: "'ctx effect \<Rightarrow> bool" where
  "isAddPaymentToOrder (AddPaymentToOrder _ _ _) = True"
| "isAddPaymentToOrder _ = False"

fun isServiceCall :: "'ctx effect \<Rightarrow> bool" where
  "isServiceCall (LoggerError _ _) = False"
| "isServiceCall (LoggerInfo _ _) = False"
| "isServiceCall (ConsoleLogToken _) = False"
| "isServiceCall (ConsoleLogPayment _) = False"
| "isServiceCall (Send _ _) = False"
| "isServiceCall _ = True"

fun isOrderStoreCall :: "'ctx effect \<Rightarrow> bool" where
  "isOrderStoreCall (FindOneByCode _ _) = True"
| "isOrderStoreCall (TransitionToState _ _ _) = True"
| "isOrderStoreCall (AddPaymentToOrder _ _ _) = True"
| "isOrderStoreCall _ = False"

subsection \<open>The controller\<close>

definition missingHeaderErrorMessage :: string where
  "missingHeaderErrorMessage = ''Missing xendit-signature header''"

definition signatureErrorMessage :: string where
  "signatureErrorMessage = ''Error verifying Xendit webhook signature''"

definition noPaymentIntentErrorMessage :: string where
  "noPaymentIntentErrorMessage = ''No payment intent in the event payload''"

definition BAD_REQUEST :: nat where
  "BAD_REQUEST = 400"

definition OK :: nat where
  "OK = 200"

text \<open>\<^verbatim>\<open>xenditPaymentMethodHandler.code\<close> of \<^verbatim>\<open>xendit.handler.ts\<close>.\<close>

definition xenditPaymentMethodHandler_code :: string where
  "xenditPaymentMethodHandler_code = ''xendit''"

text \<open>
  JavaScript's \<^verbatim>\<open>s.split(c)\<close> for a one-character separator: the pieces between the
  separators, never an empty array.
\<close>

fun split :: "char \<Rightarrow> string \<Rightarrow> string list" where
  "split c [] = [[]]"
| "split c (x # xs) =
     (if x = c then [] # split c xs
      else (case split c xs of [] \<Rightarrow> [[x]] | w # ws \<Rightarrow> (x # w) # ws))"

text \<open>
  \<^verbatim>\<open>createContext\<close>: an admin-API request context for the channel token, in English
  (\<^verbatim>\<open>LanguageCode.en\<close> is the string \<^verbatim>\<open>en\<close>).
\<close>

definition createContextInput :: "string \<Rightarrow> CreateContextInput" where
  "createContextInput channelToken =
     \<lparr>apiType = ''admin'', channelOrToken = channelToken, languageCode = ''en''\<rparr>"

definition createContext :: "'ctx Services \<Rightarrow> string \<Rightarrow> error + 'ctx" where
  "createContext S channelToken =
     requestContextService_create S (createContextInput channelToken)"

text \<open>
  \<^verbatim>\<open>getPaymentMethod\<close>: the first configured method whose handler code is the Xendit
  handler's. \<open>loggerCtx\<close> is a constant of \<^verbatim>\<open>constant.ts\<close>, taken as a parameter.
\<close>

definition getPaymentMethod ::
  "string \<Rightarrow> 'ctx Services \<Rightarrow> 'ctx \<Rightarrow> error + PaymentMethod" where
  "getPaymentMethod loggerCtx S ctx =
     (case connection_find S ctx of
        Inl e \<Rightarrow> Inl e
      | Inr methods \<Rightarrow>
          (case find (\<lambda>m. handler_code m = xenditPaymentMethodHandler_code) methods of
             None \<Rightarrow> Inl (InternalServerError
                       (''['' @ loggerCtx @ ''] Could not find Xendit PaymentMethod''))
           | Some m \<Rightarrow> Inr m))"

text \<open>
  The end of \<^verbatim>\<open>webhook\<close> (lines 101 to 125), reached from both branches of the test on
  the order's state: resolve the payment method, add the payment, answer 200.
\<close>

definition webhook_addPayment ::
  "string \<Rightarrow> 'ctx Services \<Rightarrow> 'ctx \<Rightarrow> Order \<Rightarrow> XenditCallbackRequest \<Rightarrow> 'ctx run" where
  "webhook_addPayment loggerCtx S ctx order xenditPayment =
     after [FindPaymentMethods ctx]
       (case getPaymentMethod loggerCtx S ctx of
          Inl e \<Rightarrow> Run [] (Some e)
        | Inr paymentMethod \<Rightarrow>
            after [AddPaymentToOrder ctx (order_id order)
                     \<lparr>input_method = method_code paymentMethod, metadata = xenditPayment\<rparr>]
              (case orderService_addPaymentToOrder S ctx (order_id order)
                      \<lparr>input_method = method_code paymentMethod, metadata = xenditPayment\<rparr> of
                 Inl e \<Rightarrow> Run [] (Some e)
               | Inr (AddPaymentErrorResult msg) \<Rightarrow>
                   Run [LoggerError
                          (''Error adding payment to order '' @ external_id xenditPayment
                             @ '': '' @ msg) loggerCtx] None
               | Inr (PaidOrder _) \<Rightarrow>
                   Run [LoggerInfo
                          (''Xendit payment id '' @ callback_id xenditPayment
                             @ '' added to order '' @ external_id xenditPayment) loggerCtx,
                        Send OK ''Ok''] None))"

text \<open>
  \<^verbatim>\<open>XenditController.webhook\<close>. The header is absent (\<open>None\<close>) or a string;
  \<^verbatim>\<open>!callbackToken\<close> holds for both the absent and the empty header. The value
  \<^verbatim>\<open>verifyCallback\<close> resolves to is not bound to anything: only a rejection reaches the
  \<^verbatim>\<open>catch\<close>. The body is absent or has the declared type.
\<close>

definition webhook ::
  "string \<Rightarrow> 'ctx Services \<Rightarrow> string option \<Rightarrow> XenditCallbackRequest option \<Rightarrow> 'ctx run" where
  "webhook loggerCtx S header body =
     (case header of
        None \<Rightarrow> Run [LoggerError missingHeaderErrorMessage loggerCtx,
                     Send BAD_REQUEST missingHeaderErrorMessage] None
      | Some token \<Rightarrow>
     if token = [] then
       Run [LoggerError missingHeaderErrorMessage loggerCtx,
            Send BAD_REQUEST missingHeaderErrorMessage] None
     else after [VerifyCallback token]
     (case xenditService_verifyCallback S (Some token) of
        Inl e \<Rightarrow> Run [LoggerError (signatureErrorMessage @ '' '' @ token @ '': '' @ message e)
                        loggerCtx,
                      Send BAD_REQUEST signatureErrorMessage] None
      | Inr _ \<Rightarrow> after [ConsoleLogToken token]
     (case body of
        None \<Rightarrow> Run [LoggerError noPaymentIntentErrorMessage loggerCtx,
                     Send BAD_REQUEST noPaymentIntentErrorMessage] None
      | Some xenditPayment \<Rightarrow> after [ConsoleLogPayment xenditPayment]
     (let channelToken = hd (split CHR ''_'' (description xenditPayment));
          orderCode = external_id xenditPayment
      in after [CreateContext (createContextInput channelToken)]
     (case createContext S channelToken of
        Inl e \<Rightarrow> Run [] (Some e)
      | Inr ctx \<Rightarrow> after [FindOneByCode ctx orderCode]
     (case orderService_findOneByCode S ctx orderCode of
        Inl e \<Rightarrow> Run [] (Some e)
      | Inr None \<Rightarrow>
          Run [] (Some (Error (''Unable to find order '' @ orderCode
                                 @ '', unable to settle payment ''
                                 @ callback_id xenditPayment @ ''!'')))
      | Inr (Some order) \<Rightarrow>
          if order_state order \<noteq> ''ArrangingPayment'' then
            after [TransitionToState ctx (order_id order) ''ArrangingPayment'']
              (case orderService_transitionToState S ctx (order_id order)
                      ''ArrangingPayment'' of
                 Inl e \<Rightarrow> Run [] (Some e)
               | Inr (OrderStateTransitionError msg) \<Rightarrow>
                   Run [LoggerError
                          (''Error transitioning order '' @ orderCode
                             @ '' to ArrangingPayment state: '' @ msg) loggerCtx] None
               | Inr (Transitioned _) \<Rightarrow>
                   webhook_addPayment loggerCtx S ctx order xenditPayment)
          else webhook_addPayment loggerCtx S ctx order xenditPayment))))))"

subsection \<open>Refunds\<close>

text \<open>\<^verbatim>\<open>XenditService.createRefund\<close>: a bare \<^verbatim>\<open>return\<close>, for every argument.\<close>

definition createRefund :: "string \<Rightarrow> int \<Rightarrow> js_value" where
  "createRefund paymentIntentId refundAmount = JUndefined"

text \<open>Vendure's \<^verbatim>\<open>CreateRefundResult\<close> and the field of \<^verbatim>\<open>Payment\<close> the handler reads.\<close>

datatype RefundState = Failed | Pending | Settled

record CreateRefundResult =
  refund_state :: RefundState
  refund_transactionId :: string

record Payment =
  payment_transactionId :: string

text \<open>
  \<^verbatim>\<open>xenditPaymentMethodHandler.createRefund\<close>: five of its six arguments are unused, and
  it calls nothing.
\<close>

definition handler_createRefund ::
  "'ctx \<Rightarrow> 'input \<Rightarrow> int \<Rightarrow> Order \<Rightarrow> Payment \<Rightarrow> 'args \<Rightarrow> CreateRefundResult" where
  "handler_createRefund ctx input refundAmount order payment args =
     \<lparr>refund_state = Settled, refund_transactionId = payment_transactionId payment\<rparr>"


subsection \<open>The scenario of the specification\<close>

text \<open>
  The notification, the order and the services of the specification's scenarios: the
  configured token is \<^verbatim>\<open>xyz\<close>, order \<^verbatim>\<open>ORD123\<close> is in state \<^verbatim>\<open>AddingItems\<close>, one
  payment method uses the Xendit handler. The request context is the channel token.
\<close>

definition scenario_options :: "XenditPluginOptions option" where
  "scenario_options =
     Some \<lparr>apiKey = ''key'', callbackToken = Some ''xyz'', invoiceDuration = None,
           paymentMethods = None\<rparr>"

definition scenario_body :: XenditCallbackRequest where
  "scenario_body =
     \<lparr>callback_id = ''inv-1'', amount = 150000, status = ''PAID'',
      created = ''2023-01-01T00:00:00.000Z'', is_high = False,
      updated = ''2023-01-01T00:05:00.000Z'', user_id = ''user-1'', currency = ''IDR'',
      description = ''tenant1_55'', external_id = ''ORD123'',
      payer_email = ''payer@example.com'', merchant_name = ''Shop''\<rparr>"

definition scenario_order :: Order where
  "scenario_order =
     \<lparr>order_id = ''55'', order_code = ''ORD123'', order_state = ''AddingItems''\<rparr>"

definition scenario_method :: PaymentMethod where
  "scenario_method = \<lparr>method_code = ''xendit-payment'', handler_code = ''xendit''\<rparr>"

definition scenario_services :: "string Services" where
  "scenario_services =
     \<lparr>xenditService_verifyCallback =
        (\<lambda>presented. Inr (verifyCallback scenario_options presented)),
      requestContextService_create = (\<lambda>input. Inr (channelOrToken input)),
      orderService_findOneByCode =
        (\<lambda>ctx code. Inr (if code = ''ORD123'' then Some scenario_order else None)),
      orderService_transitionToState =
        (\<lambda>ctx orderId state. Inr (Transitioned (scenario_order\<lparr>order_state := state\<rparr>))),
      orderService_addPaymentToOrder =
        (\<lambda>ctx orderId input.
           Inr (PaidOrder (scenario_order\<lparr>order_state := ''PaymentSettled''\<rparr>))),
      connection_find = (\<lambda>ctx. Inr [scenario_method])\<rparr>"

text \<open>The same services, with an Order Store that rejects the payment.\<close>

definition payment_rejecting_services :: "string Services" where
  "payment_rejecting_services =
     scenario_services\<lparr>orderService_addPaymentToOrder :=
       (\<lambda>ctx orderId input. Inr (AddPaymentErrorResult ''Payment declined''))\<rparr>"

text \<open>The same services, with an Order Store that rejects every transition.\<close>

definition transition_rejecting_services :: "string Services" where
  "transition_rejecting_services =
     scenario_services\<lparr>orderService_transitionToState :=
       (\<lambda>ctx orderId state.
          Inr (OrderStateTransitionError ''Cannot transition Order to ArrangingPayment''))\<rparr>"

text \<open>The same services, where the only payment method uses another handler.\<close>

definition unconfigured_services :: "string Services" where
  "unconfigured_services =
     scenario_services\<lparr>connection_find :=
       (\<lambda>ctx. Inr [\<lparr>method_code = ''standard-payment'', handler_code = ''dummy''\<rparr>])\<rparr>"

fun isSend :: "'ctx effect \<Rightarrow> bool" where
  "isSend (Send _ _) = True"
| "isSend _ = False"

section \<open>Properties of the callback verifier\<close>

text \<open>
  C2, as amended. For every configured token (possibly absent) and every presented token
  (possibly absent), \<^verbatim>\<open>verifyCallback\<close> returns a falsy, non-mismatch result if and only
  if no token is configured, or the configured token is the empty string, or the configured
  and the presented token are exactly equal. When no token is configured, the result is
  falsy for every presented token.
\<close>

theorem verifyCallback_valid_iff:
  "(\<not> truthy (verifyCallback options presented) \<longleftrightarrow>
      configuredToken options = None \<or> configuredToken options = Some ''''
        \<or> configuredToken options = presented)
   \<and> (configuredToken options = None \<longrightarrow> \<not> truthy (verifyCallback options presented))"
  by (cases "configuredToken options")
     (auto simp: verifyCallback_def configuredTokenLength_def)

theorem verifyCallback_valid_iff_witness:
  "configuredToken None = None \<and> \<not> truthy (verifyCallback None (Some ''abc''))"
  using verifyCallback_valid_iff [of None "Some ''abc''"]
  by (simp add: configuredToken_def)

text \<open>
  C2 as stated fails when the configured token is the empty string: it is configured, it
  differs from the presented \<^verbatim>\<open>"abc"\<close>, and the result is the falsy length \<^verbatim>\<open>0\<close>.
\<close>

theorem verifyCallback_empty_configured_counterexample:
  "\<not> (\<not> truthy (verifyCallback
          (Some \<lparr>apiKey = ''key'', callbackToken = Some '''', invoiceDuration = None,
                 paymentMethods = None\<rparr>) (Some ''abc'')) \<longleftrightarrow>
        configuredToken
          (Some \<lparr>apiKey = ''key'', callbackToken = Some '''', invoiceDuration = None,
                 paymentMethods = None\<rparr>) = None
        \<or> configuredToken
          (Some \<lparr>apiKey = ''key'', callbackToken = Some '''', invoiceDuration = None,
                 paymentMethods = None\<rparr>) = Some ''abc'')"
  by (simp add: verifyCallback_def configuredTokenLength_def configuredToken_def)

text \<open>
  C10. If the configured token is the empty string, \<^verbatim>\<open>verifyCallback\<close> returns the
  falsy length \<^verbatim>\<open>0\<close> for every presented token, which is a non-mismatch result just as
  the \<^verbatim>\<open>undefined\<close> of an absent token is: the strings are never compared.
\<close>

theorem verifyCallback_empty_token_bypass:
  "verifyCallback (Some (opts\<lparr>callbackToken := Some ''''\<rparr>)) presented = JNumber 0
   \<and> \<not> truthy (verifyCallback (Some (opts\<lparr>callbackToken := Some ''''\<rparr>)) presented)
   \<and> \<not> truthy (verifyCallback (Some (opts\<lparr>callbackToken := None\<rparr>)) presented)"
  by (simp add: verifyCallback_def configuredTokenLength_def configuredToken_def)

section \<open>Properties of the webhook\<close>

subsection \<open>Supporting lemmas\<close>

lemma after_Run [simp]: "after es (Run t x) = Run (es @ t) x"
  by (simp add: after_def)

lemma trace_after [simp]: "trace (after es r) = es @ trace r"
  by (simp add: after_def)

lemma thrown_after [simp]: "thrown (after es r) = thrown r"
  by (simp add: after_def)

text \<open>\<^verbatim>\<open>split\<close> never returns the empty list, so its element \<^verbatim>\<open>[0]\<close> is defined: it
  is the text before the first separator.\<close>

lemma split_not_Nil: "split c s \<noteq> []"
  by (induction s) (auto split: list.splits)

lemma hd_split: "hd (split c s) = takeWhile (\<lambda>x. x \<noteq> c) s"
  by (induction s) (auto split: list.splits simp: split_not_Nil)

text \<open>The run up to a located order, and what follows it.\<close>

lemma webhook_located:
  assumes "token \<noteq> []"
    and "xenditService_verifyCallback S (Some token) = Inr v"
    and "createContext S (hd (split CHR ''_'' (description xenditPayment))) = Inr ctx"
    and "orderService_findOneByCode S ctx (external_id xenditPayment) = Inr (Some order)"
  shows "webhook loggerCtx S (Some token) (Some xenditPayment) =
     after [VerifyCallback token, ConsoleLogToken token, ConsoleLogPayment xenditPayment,
            CreateContext (createContextInput (hd (split CHR ''_'' (description xenditPayment)))),
            FindOneByCode ctx (external_id xenditPayment)]
       (if order_state order \<noteq> ''ArrangingPayment'' then
            after [TransitionToState ctx (order_id order) ''ArrangingPayment'']
              (case orderService_transitionToState S ctx (order_id order)
                      ''ArrangingPayment'' of
                 Inl e \<Rightarrow> Run [] (Some e)
               | Inr (OrderStateTransitionError msg) \<Rightarrow>
                   Run [LoggerError
                          (''Error transitioning order '' @ external_id xenditPayment
                             @ '' to ArrangingPayment state: '' @ msg) loggerCtx] None
               | Inr (Transitioned _) \<Rightarrow>
                   webhook_addPayment loggerCtx S ctx order xenditPayment)
          else webhook_addPayment loggerCtx S ctx order xenditPayment)"
  using assms by (simp add: webhook_def Let_def after_def)

lemma webhook_addPayment_transitions:
  "filter isTransitionToState (trace (webhook_addPayment loggerCtx S ctx order xenditPayment)) = []"
  by (simp add: webhook_addPayment_def split: sum.splits AddPaymentResult.splits)

lemma getPaymentMethod_missing:
  assumes "connection_find S ctx = Inr methods"
    and "\<forall>m \<in> set methods. handler_code m \<noteq> xenditPaymentMethodHandler_code"
  shows "getPaymentMethod loggerCtx S ctx =
           Inl (InternalServerError (''['' @ loggerCtx @ ''] Could not find Xendit PaymentMethod''))"
proof -
  have "find (\<lambda>m. handler_code m = xenditPaymentMethodHandler_code) methods = None"
    using assms(2) by (simp add: find_None_iff)
  then show ?thesis
    using assms(1) by (simp add: getPaymentMethod_def)
qed

lemma getPaymentMethod_handler:
  assumes "getPaymentMethod loggerCtx S ctx = Inr paymentMethod"
  shows "handler_code paymentMethod = xenditPaymentMethodHandler_code"
  using assms
  by (auto simp: getPaymentMethod_def find_Some_iff split: sum.splits option.splits)

text \<open>A rejection of \<^verbatim>\<open>verifyCallback\<close> is answered 400, before the body is read.\<close>

lemma webhook_verifier_throws:
  assumes "token \<noteq> []"
    and "xenditService_verifyCallback S (Some token) = Inl e"
  shows "webhook loggerCtx S (Some token) body =
           Run [VerifyCallback token,
                LoggerError (signatureErrorMessage @ '' '' @ token @ '': '' @ message e)
                  loggerCtx,
                Send 400 signatureErrorMessage] None"
  using assms by (simp add: webhook_def BAD_REQUEST_def)

text \<open>
  With the \<^verbatim>\<open>XenditService\<close> of this repository, the run does not depend on the
  configured token: the service never throws and its result is not used.
\<close>

lemma getPaymentMethod_withXenditService:
  "getPaymentMethod loggerCtx (withXenditService options S) ctx =
   getPaymentMethod loggerCtx S ctx"
  by (simp add: getPaymentMethod_def withXenditService_def)

lemma webhook_addPayment_withXenditService:
  "webhook_addPayment loggerCtx (withXenditService options S) ctx order xenditPayment =
   webhook_addPayment loggerCtx S ctx order xenditPayment"
proof -
  have add: "orderService_addPaymentToOrder (withXenditService options S) =
      orderService_addPaymentToOrder S"
    by (simp add: withXenditService_def)
  show ?thesis
    unfolding webhook_addPayment_def getPaymentMethod_withXenditService add ..
qed

lemma webhook_ignores_options:
  "webhook loggerCtx (withXenditService options S) header body =
   webhook loggerCtx (withXenditService options' S) header body"
proof -
  have sel: "createContext (withXenditService options S) = createContext S"
    "createContext (withXenditService options' S) = createContext S"
    "orderService_findOneByCode (withXenditService options S) = orderService_findOneByCode S"
    "orderService_findOneByCode (withXenditService options' S) = orderService_findOneByCode S"
    "orderService_transitionToState (withXenditService options S) =
       orderService_transitionToState S"
    "orderService_transitionToState (withXenditService options' S) =
       orderService_transitionToState S"
    by (simp_all add: withXenditService_def createContext_def fun_eq_iff)
  have ver: "xenditService_verifyCallback (withXenditService options S) t =
       Inr (verifyCallback options t)"
    "xenditService_verifyCallback (withXenditService options' S) t =
       Inr (verifyCallback options' t)" for t
    by (simp_all add: withXenditService_def)
  show ?thesis
    unfolding webhook_def sel ver webhook_addPayment_withXenditService
    by (cases header) simp_all
qed

lemmas scenario_defs =
  scenario_services_def scenario_options_def scenario_body_def scenario_order_def
  scenario_method_def createContext_def createContextInput_def

subsection \<open>Signature mismatch\<close>

text \<open>
  C1. The claim: a request whose \<^verbatim>\<open>x-callback-token\<close> is \<^verbatim>\<open>abc\<close> while \<^verbatim>\<open>xyz\<close> is
  configured is answered 400 with the bad-signature message, with no Order Store call. The
  code at that input: \<^verbatim>\<open>verifyCallback\<close> reports the mismatch (\<^verbatim>\<open>true\<close>), the controller
  drops that result, looks the order up, transitions it, adds the payment and answers
  200 \<^verbatim>\<open>Ok\<close>.
\<close>

theorem webhook_mismatch_not_rejected:
  "verifyCallback scenario_options (Some ''abc'') = JBoolean True
   \<and> webhook ''XenditPlugin'' scenario_services (Some ''abc'') (Some scenario_body) =
       Run [VerifyCallback ''abc'', ConsoleLogToken ''abc'', ConsoleLogPayment scenario_body,
            CreateContext (createContextInput ''tenant1''),
            FindOneByCode ''tenant1'' ''ORD123'',
            TransitionToState ''tenant1'' ''55'' ''ArrangingPayment'',
            FindPaymentMethods ''tenant1'',
            AddPaymentToOrder ''tenant1'' ''55''
              \<lparr>input_method = ''xendit-payment'', metadata = scenario_body\<rparr>,
            LoggerInfo ''Xendit payment id inv-1 added to order ORD123'' ''XenditPlugin'',
            Send 200 ''Ok''] None
   \<and> filter isOrderStoreCall
       (trace (webhook ''XenditPlugin'' scenario_services (Some ''abc'')
                 (Some scenario_body))) =
       [FindOneByCode ''tenant1'' ''ORD123'',
        TransitionToState ''tenant1'' ''55'' ''ArrangingPayment'',
        AddPaymentToOrder ''tenant1'' ''55''
          \<lparr>input_method = ''xendit-payment'', metadata = scenario_body\<rparr>]"
  by (simp add: webhook_def webhook_addPayment_def getPaymentMethod_def Let_def
        scenario_defs verifyCallback_def OK_def
        configuredTokenLength_def configuredToken_def xenditPaymentMethodHandler_code_def)

subsection \<open>Missing header\<close>

text \<open>
  C3. When the \<^verbatim>\<open>x-callback-token\<close> header is absent, the handler logs and sends 400
  with the missing-header message and returns: whatever the body and the services are, the
  run has no other effect, so no \<^verbatim>\<open>verifyCallback\<close>, \<^verbatim>\<open>findOneByCode\<close>,
  \<^verbatim>\<open>transitionToState\<close> or \<^verbatim>\<open>addPaymentToOrder\<close> call is made and the body is not read.
\<close>

theorem webhook_missing_header:
  "webhook loggerCtx S None body =
     Run [LoggerError missingHeaderErrorMessage loggerCtx,
          Send 400 missingHeaderErrorMessage] None
   \<and> filter isServiceCall (trace (webhook loggerCtx S None body)) = []"
  by (simp add: webhook_def BAD_REQUEST_def)

subsection \<open>The settlement scenario\<close>

text \<open>
  C4, as amended. For a notification with \<^verbatim>\<open>external_id\<close> \<^verbatim>\<open>ORD123\<close>, \<^verbatim>\<open>description\<close>
  \<^verbatim>\<open>tenant1_55\<close> and \<^verbatim>\<open>id\<close> \<^verbatim>\<open>inv-1\<close> whose verification does not throw, where order
  \<^verbatim>\<open>ORD123\<close> exists in state \<^verbatim>\<open>AddingItems\<close>, the transition and the payment-method lookup
  succeed and \<^verbatim>\<open>addPaymentToOrder\<close> returns an order: the handler issues exactly one
  \<^verbatim>\<open>transitionToState\<close> call to \<^verbatim>\<open>ArrangingPayment\<close>, then exactly one
  \<^verbatim>\<open>addPaymentToOrder\<close> call whose method is the code of the resolved payment method (one
  whose handler code is the Xendit handler's) and whose metadata is the notification body,
  and then answers 200 with body \<^verbatim>\<open>Ok\<close>.
\<close>

theorem webhook_scenario:
  assumes "token \<noteq> []"
    and "xenditService_verifyCallback S (Some token) = Inr v"
    and "external_id xenditPayment = ''ORD123''"
    and "description xenditPayment = ''tenant1_55''"
    and "callback_id xenditPayment = ''inv-1''"
    and "createContext S ''tenant1'' = Inr ctx"
    and "orderService_findOneByCode S ctx ''ORD123'' = Inr (Some order)"
    and "order_state order = ''AddingItems''"
    and "orderService_transitionToState S ctx (order_id order) ''ArrangingPayment'' =
           Inr (Transitioned order')"
    and "getPaymentMethod loggerCtx S ctx = Inr paymentMethod"
    and "orderService_addPaymentToOrder S ctx (order_id order)
           \<lparr>input_method = method_code paymentMethod, metadata = xenditPayment\<rparr> =
           Inr (PaidOrder order'')"
  shows "webhook loggerCtx S (Some token) (Some xenditPayment) =
           Run [VerifyCallback token, ConsoleLogToken token, ConsoleLogPayment xenditPayment,
                CreateContext (createContextInput ''tenant1''),
                FindOneByCode ctx ''ORD123'',
                TransitionToState ctx (order_id order) ''ArrangingPayment'',
                FindPaymentMethods ctx,
                AddPaymentToOrder ctx (order_id order)
                  \<lparr>input_method = method_code paymentMethod, metadata = xenditPayment\<rparr>,
                LoggerInfo ''Xendit payment id inv-1 added to order ORD123'' loggerCtx,
                Send 200 ''Ok''] None
         \<and> handler_code paymentMethod = xenditPaymentMethodHandler_code"
proof -
  have channel: "hd (split CHR ''_'' (description xenditPayment)) = ''tenant1''"
    by (simp add: assms(4))
  have tail: "webhook_addPayment loggerCtx S ctx order xenditPayment =
      Run [FindPaymentMethods ctx,
           AddPaymentToOrder ctx (order_id order)
             \<lparr>input_method = method_code paymentMethod, metadata = xenditPayment\<rparr>,
           LoggerInfo ''Xendit payment id inv-1 added to order ORD123'' loggerCtx,
           Send 200 ''Ok''] None"
    by (simp add: webhook_addPayment_def assms(3,5,10,11) OK_def)
  have "webhook loggerCtx S (Some token) (Some xenditPayment) =
           Run [VerifyCallback token, ConsoleLogToken token, ConsoleLogPayment xenditPayment,
                CreateContext (createContextInput ''tenant1''),
                FindOneByCode ctx ''ORD123'',
                TransitionToState ctx (order_id order) ''ArrangingPayment'',
                FindPaymentMethods ctx,
                AddPaymentToOrder ctx (order_id order)
                  \<lparr>input_method = method_code paymentMethod, metadata = xenditPayment\<rparr>,
                LoggerInfo ''Xendit payment id inv-1 added to order ORD123'' loggerCtx,
                Send 200 ''Ok''] None"
    using assms(1,2,6,7,8,9)
    by (simp add: webhook_def Let_def channel assms(3) tail)
  then show ?thesis
    using getPaymentMethod_handler [OF assms(10)] by simp
qed

theorem webhook_scenario_witness:
  "webhook ''XenditPlugin'' scenario_services (Some ''xyz'') (Some scenario_body) =
     Run [VerifyCallback ''xyz'', ConsoleLogToken ''xyz'', ConsoleLogPayment scenario_body,
          CreateContext (createContextInput ''tenant1''), FindOneByCode ''tenant1'' ''ORD123'',
          TransitionToState ''tenant1'' ''55'' ''ArrangingPayment'',
          FindPaymentMethods ''tenant1'',
          AddPaymentToOrder ''tenant1'' ''55''
            \<lparr>input_method = ''xendit-payment'', metadata = scenario_body\<rparr>,
          LoggerInfo ''Xendit payment id inv-1 added to order ORD123'' ''XenditPlugin'',
          Send 200 ''Ok''] None"
proof -
  have h1: "''xyz'' \<noteq> []"
    by simp
  have h2: "xenditService_verifyCallback scenario_services (Some ''xyz'') = Inr (JBoolean False)"
    by (simp add: scenario_defs verifyCallback_def configuredTokenLength_def
          configuredToken_def)
  have h3: "external_id scenario_body = ''ORD123''"
    and h4: "description scenario_body = ''tenant1_55''"
    and h5: "callback_id scenario_body = ''inv-1''"
    by (simp_all add: scenario_body_def)
  have h6: "createContext scenario_services ''tenant1'' = Inr ''tenant1''"
    by (simp add: scenario_defs)
  have h7: "orderService_findOneByCode scenario_services ''tenant1'' ''ORD123'' =
      Inr (Some scenario_order)"
    by (simp add: scenario_defs)
  have h8: "order_state scenario_order = ''AddingItems''"
    by (simp add: scenario_order_def)
  have h9: "orderService_transitionToState scenario_services ''tenant1''
      (order_id scenario_order) ''ArrangingPayment'' =
      Inr (Transitioned (scenario_order\<lparr>order_state := ''ArrangingPayment''\<rparr>))"
    by (simp add: scenario_services_def)
  have h10: "getPaymentMethod ''XenditPlugin'' scenario_services ''tenant1'' =
      Inr scenario_method"
    by (simp add: getPaymentMethod_def scenario_services_def scenario_method_def
          xenditPaymentMethodHandler_code_def)
  have h11: "orderService_addPaymentToOrder scenario_services ''tenant1''
      (order_id scenario_order)
      \<lparr>input_method = method_code scenario_method, metadata = scenario_body\<rparr> =
      Inr (PaidOrder (scenario_order\<lparr>order_state := ''PaymentSettled''\<rparr>))"
    by (simp add: scenario_services_def)
  have fields: "order_id scenario_order = ''55''" "method_code scenario_method = ''xendit-payment''"
    by (simp_all add: scenario_order_def scenario_method_def)
  from webhook_scenario [OF h1 h2 h3 h4 h5 h6 h7 h8 h9 h10 h11]
  show ?thesis
    unfolding fields by simp
qed

text \<open>
  C4 as stated does not ask that \<^verbatim>\<open>addPaymentToOrder\<close> succeeds. When the Order Store
  rejects the payment, all that the claim supposes holds, and the handler logs the rejection
  and returns without sending any response.
\<close>

theorem webhook_scenario_payment_rejected_counterexample:
  "xenditService_verifyCallback payment_rejecting_services (Some ''xyz'') = Inr (JBoolean False)
   \<and> orderService_findOneByCode payment_rejecting_services ''tenant1'' ''ORD123'' =
       Inr (Some scenario_order)
   \<and> order_state scenario_order = ''AddingItems''
   \<and> orderService_transitionToState payment_rejecting_services ''tenant1'' ''55''
       ''ArrangingPayment'' =
       Inr (Transitioned (scenario_order\<lparr>order_state := ''ArrangingPayment''\<rparr>))
   \<and> getPaymentMethod ''XenditPlugin'' payment_rejecting_services ''tenant1'' =
       Inr scenario_method
   \<and> webhook ''XenditPlugin'' payment_rejecting_services (Some ''xyz'') (Some scenario_body) =
       Run [VerifyCallback ''xyz'', ConsoleLogToken ''xyz'', ConsoleLogPayment scenario_body,
            CreateContext (createContextInput ''tenant1''),
            FindOneByCode ''tenant1'' ''ORD123'',
            TransitionToState ''tenant1'' ''55'' ''ArrangingPayment'',
            FindPaymentMethods ''tenant1'',
            AddPaymentToOrder ''tenant1'' ''55''
              \<lparr>input_method = ''xendit-payment'', metadata = scenario_body\<rparr>,
            LoggerError ''Error adding payment to order ORD123: Payment declined''
              ''XenditPlugin''] None
   \<and> filter isSend
       (trace (webhook ''XenditPlugin'' payment_rejecting_services (Some ''xyz'')
                 (Some scenario_body))) = []"
  by (simp add: webhook_def webhook_addPayment_def getPaymentMethod_def Let_def
        payment_rejecting_services_def scenario_defs verifyCallback_def
        configuredTokenLength_def configuredToken_def xenditPaymentMethodHandler_code_def)

subsection \<open>The transition to \<^verbatim>\<open>ArrangingPayment\<close>\<close>

text \<open>
  C5. For every located order (the header is present and not empty, verification and the
  request context do not throw, \<^verbatim>\<open>findOneByCode\<close> returns the order): if its state is
  \<^verbatim>\<open>ArrangingPayment\<close> the run has no \<^verbatim>\<open>transitionToState\<close> call; otherwise it has
  exactly one, to \<^verbatim>\<open>ArrangingPayment\<close>, and no \<^verbatim>\<open>addPaymentToOrder\<close> call comes before it.
\<close>

theorem webhook_transition_calls:
  assumes "token \<noteq> []"
    and "xenditService_verifyCallback S (Some token) = Inr v"
    and "createContext S (hd (split CHR ''_'' (description xenditPayment))) = Inr ctx"
    and "orderService_findOneByCode S ctx (external_id xenditPayment) = Inr (Some order)"
  shows "filter isTransitionToState (trace (webhook loggerCtx S (Some token) (Some xenditPayment))) =
           (if order_state order = ''ArrangingPayment'' then []
            else [TransitionToState ctx (order_id order) ''ArrangingPayment''])
         \<and> (order_state order \<noteq> ''ArrangingPayment'' \<longrightarrow>
              filter isAddPaymentToOrder
                (takeWhile (\<lambda>e. \<not> isTransitionToState e)
                   (trace (webhook loggerCtx S (Some token) (Some xenditPayment)))) = [])"
  unfolding webhook_located [OF assms]
  by (auto simp: webhook_addPayment_transitions split: sum.splits TransitionResult.splits)

theorem webhook_transition_calls_witness:
  "filter isTransitionToState
     (trace (webhook ''XenditPlugin'' scenario_services (Some ''xyz'') (Some scenario_body))) =
     [TransitionToState ''tenant1'' ''55'' ''ArrangingPayment'']
   \<and> filter isAddPaymentToOrder
       (takeWhile (\<lambda>e. \<not> isTransitionToState e)
          (trace (webhook ''XenditPlugin'' scenario_services (Some ''xyz'')
                    (Some scenario_body)))) = []"
proof -
  have h1: "''xyz'' \<noteq> []"
    by simp
  have h2: "xenditService_verifyCallback scenario_services (Some ''xyz'') = Inr (JBoolean False)"
    by (simp add: scenario_defs verifyCallback_def configuredTokenLength_def
          configuredToken_def)
  have h3: "createContext scenario_services (hd (split CHR ''_'' (description scenario_body))) =
      Inr ''tenant1''"
    by (simp add: scenario_defs)
  have h4: "orderService_findOneByCode scenario_services ''tenant1''
      (external_id scenario_body) = Inr (Some scenario_order)"
    by (simp add: scenario_defs)
  have st: "order_state scenario_order \<noteq> ''ArrangingPayment''" "order_id scenario_order = ''55''"
    by (simp_all add: scenario_order_def)
  from webhook_transition_calls [OF h1 h2 h3 h4, of "''XenditPlugin''"] st
  show ?thesis
    by simp
qed

text \<open>
  C6. When \<^verbatim>\<open>findOneByCode\<close> returns no order for the notification's \<^verbatim>\<open>external_id\<close>,
  the handler throws an \<^verbatim>\<open>Error\<close> whose message names that order code (and the payment
  id), and the run has no \<^verbatim>\<open>transitionToState\<close> and no \<^verbatim>\<open>addPaymentToOrder\<close> call.
\<close>

theorem webhook_order_not_found:
  assumes "token \<noteq> []"
    and "xenditService_verifyCallback S (Some token) = Inr v"
    and "createContext S (hd (split CHR ''_'' (description xenditPayment))) = Inr ctx"
    and "orderService_findOneByCode S ctx (external_id xenditPayment) = Inr None"
  shows "thrown (webhook loggerCtx S (Some token) (Some xenditPayment)) =
           Some (Error (''Unable to find order '' @ external_id xenditPayment
                          @ '', unable to settle payment '' @ callback_id xenditPayment
                          @ ''!''))
         \<and> filter isTransitionToState
              (trace (webhook loggerCtx S (Some token) (Some xenditPayment))) = []
         \<and> filter isAddPaymentToOrder
              (trace (webhook loggerCtx S (Some token) (Some xenditPayment))) = []"
  using assms by (simp add: webhook_def Let_def)

theorem webhook_order_not_found_witness:
  "thrown (webhook ''XenditPlugin'' scenario_services (Some ''xyz'')
             (Some (scenario_body\<lparr>external_id := ''ORD999''\<rparr>))) =
     Some (Error ''Unable to find order ORD999, unable to settle payment inv-1!'')
   \<and> filter isTransitionToState
       (trace (webhook ''XenditPlugin'' scenario_services (Some ''xyz'')
                 (Some (scenario_body\<lparr>external_id := ''ORD999''\<rparr>)))) = []
   \<and> filter isAddPaymentToOrder
       (trace (webhook ''XenditPlugin'' scenario_services (Some ''xyz'')
                 (Some (scenario_body\<lparr>external_id := ''ORD999''\<rparr>)))) = []"
proof -
  have h1: "''xyz'' \<noteq> []"
    by simp
  have h2: "xenditService_verifyCallback scenario_services (Some ''xyz'') = Inr (JBoolean False)"
    by (simp add: scenario_defs verifyCallback_def configuredTokenLength_def
          configuredToken_def)
  have h3: "createContext scenario_services
      (hd (split CHR ''_'' (description (scenario_body\<lparr>external_id := ''ORD999''\<rparr>)))) =
      Inr ''tenant1''"
    by (simp add: scenario_defs)
  have h4: "orderService_findOneByCode scenario_services ''tenant1''
      (external_id (scenario_body\<lparr>external_id := ''ORD999''\<rparr>)) = Inr None"
    by (simp add: scenario_defs)
  have fields: "external_id (scenario_body\<lparr>external_id := ''ORD999''\<rparr>) = ''ORD999''"
    "callback_id (scenario_body\<lparr>external_id := ''ORD999''\<rparr>) = ''inv-1''"
    by (simp_all add: scenario_body_def)
  from webhook_order_not_found [OF h1 h2 h3 h4, of "''XenditPlugin''"]
  show ?thesis
    unfolding fields by simp
qed

text \<open>
  C7. When the order is not in \<^verbatim>\<open>ArrangingPayment\<close> and \<^verbatim>\<open>transitionToState\<close> returns an
  \<^verbatim>\<open>OrderStateTransitionError\<close>, the handler stops there: after the transition call the
  run has one more effect, the logged error, and then returns without throwing. It looks
  no payment method up, makes no \<^verbatim>\<open>addPaymentToOrder\<close> call and sends no response.
\<close>

theorem webhook_transition_rejected:
  assumes "token \<noteq> []"
    and "xenditService_verifyCallback S (Some token) = Inr v"
    and "createContext S (hd (split CHR ''_'' (description xenditPayment))) = Inr ctx"
    and "orderService_findOneByCode S ctx (external_id xenditPayment) = Inr (Some order)"
    and "order_state order \<noteq> ''ArrangingPayment''"
    and "orderService_transitionToState S ctx (order_id order) ''ArrangingPayment'' =
           Inr (OrderStateTransitionError msg)"
  shows "webhook loggerCtx S (Some token) (Some xenditPayment) =
           Run [VerifyCallback token, ConsoleLogToken token, ConsoleLogPayment xenditPayment,
                CreateContext
                  (createContextInput (hd (split CHR ''_'' (description xenditPayment)))),
                FindOneByCode ctx (external_id xenditPayment),
                TransitionToState ctx (order_id order) ''ArrangingPayment'',
                LoggerError
                  (''Error transitioning order '' @ external_id xenditPayment
                     @ '' to ArrangingPayment state: '' @ msg) loggerCtx] None
         \<and> thrown (webhook loggerCtx S (Some token) (Some xenditPayment)) = None
         \<and> filter isAddPaymentToOrder
              (trace (webhook loggerCtx S (Some token) (Some xenditPayment))) = []
         \<and> filter isSend
              (trace (webhook loggerCtx S (Some token) (Some xenditPayment))) = []
         \<and> filter isServiceCall
              (dropWhile (\<lambda>e. \<not> isTransitionToState e)
                 (trace (webhook loggerCtx S (Some token) (Some xenditPayment)))) =
             [TransitionToState ctx (order_id order) ''ArrangingPayment'']"
  using assms(5,6) unfolding webhook_located [OF assms(1-4)]
  by simp

theorem webhook_transition_rejected_witness:
  "webhook ''XenditPlugin'' transition_rejecting_services (Some ''xyz'') (Some scenario_body) =
     Run [VerifyCallback ''xyz'', ConsoleLogToken ''xyz'', ConsoleLogPayment scenario_body,
          CreateContext (createContextInput ''tenant1''), FindOneByCode ''tenant1'' ''ORD123'',
          TransitionToState ''tenant1'' ''55'' ''ArrangingPayment'',
          LoggerError
            (''Error transitioning order ORD123 to ArrangingPayment state: ''
               @ ''Cannot transition Order to ArrangingPayment'') ''XenditPlugin''] None
   \<and> thrown (webhook ''XenditPlugin'' transition_rejecting_services (Some ''xyz'')
               (Some scenario_body)) = None
   \<and> filter isAddPaymentToOrder
       (trace (webhook ''XenditPlugin'' transition_rejecting_services (Some ''xyz'')
                 (Some scenario_body))) = []
   \<and> filter isSend
       (trace (webhook ''XenditPlugin'' transition_rejecting_services (Some ''xyz'')
                 (Some scenario_body))) = []"
proof -
  have h1: "''xyz'' \<noteq> []"
    by simp
  have h2: "xenditService_verifyCallback transition_rejecting_services (Some ''xyz'') =
      Inr (JBoolean False)"
    by (simp add: transition_rejecting_services_def scenario_defs verifyCallback_def
          configuredTokenLength_def configuredToken_def)
  have h3: "createContext transition_rejecting_services
      (hd (split CHR ''_'' (description scenario_body))) = Inr ''tenant1''"
    by (simp add: transition_rejecting_services_def scenario_defs)
  have h4: "orderService_findOneByCode transition_rejecting_services ''tenant1''
      (external_id scenario_body) = Inr (Some scenario_order)"
    by (simp add: transition_rejecting_services_def scenario_defs)
  have h5: "order_state scenario_order \<noteq> ''ArrangingPayment''"
    by (simp add: scenario_order_def)
  have h6: "orderService_transitionToState transition_rejecting_services ''tenant1''
      (order_id scenario_order) ''ArrangingPayment'' =
      Inr (OrderStateTransitionError ''Cannot transition Order to ArrangingPayment'')"
    by (simp add: transition_rejecting_services_def)
  have fields: "hd (split CHR ''_'' (description scenario_body)) = ''tenant1''"
    "external_id scenario_body = ''ORD123''" "order_id scenario_order = ''55''"
    by (simp_all add: scenario_body_def scenario_order_def)
  from webhook_transition_rejected [OF h1 h2 h3 h4 h5 h6, of "''XenditPlugin''"]
  show ?thesis
    by (simp add: fields)
qed

subsection \<open>Missing payment method\<close>

text \<open>
  C8. When the order is in \<^verbatim>\<open>ArrangingPayment\<close> or has been transitioned to it, and no
  configured payment method has the Xendit handler's code, the handler throws an
  \<^verbatim>\<open>InternalServerError\<close> (not the plain \<^verbatim>\<open>Error\<close> of a missing order, and not the
  logged return of a rejected transition). The lookup of the payment methods is the last
  effect of the run, after the transition call if there is one, and no
  \<^verbatim>\<open>addPaymentToOrder\<close> call is made.
\<close>

theorem webhook_payment_method_missing:
  assumes "token \<noteq> []"
    and "xenditService_verifyCallback S (Some token) = Inr v"
    and "createContext S (hd (split CHR ''_'' (description xenditPayment))) = Inr ctx"
    and "orderService_findOneByCode S ctx (external_id xenditPayment) = Inr (Some order)"
    and "order_state order = ''ArrangingPayment'' \<or>
         orderService_transitionToState S ctx (order_id order) ''ArrangingPayment'' =
           Inr (Transitioned order')"
    and "connection_find S ctx = Inr methods"
    and "\<forall>m \<in> set methods. handler_code m \<noteq> xenditPaymentMethodHandler_code"
  shows "thrown (webhook loggerCtx S (Some token) (Some xenditPayment)) =
           Some (InternalServerError
                   (''['' @ loggerCtx @ ''] Could not find Xendit PaymentMethod''))
         \<and> trace (webhook loggerCtx S (Some token) (Some xenditPayment)) =
             [VerifyCallback token, ConsoleLogToken token, ConsoleLogPayment xenditPayment,
              CreateContext
                (createContextInput (hd (split CHR ''_'' (description xenditPayment)))),
              FindOneByCode ctx (external_id xenditPayment)]
             @ (if order_state order = ''ArrangingPayment'' then []
                else [TransitionToState ctx (order_id order) ''ArrangingPayment''])
             @ [FindPaymentMethods ctx]
         \<and> filter isAddPaymentToOrder
              (trace (webhook loggerCtx S (Some token) (Some xenditPayment))) = []"
proof -
  have tail: "webhook_addPayment loggerCtx S ctx order xenditPayment =
      Run [FindPaymentMethods ctx]
        (Some (InternalServerError
                 (''['' @ loggerCtx @ ''] Could not find Xendit PaymentMethod'')))"
    by (simp add: webhook_addPayment_def getPaymentMethod_missing [OF assms(6,7)])
  show ?thesis
    using assms(5) unfolding webhook_located [OF assms(1-4)]
    by (auto simp: tail)
qed

theorem webhook_payment_method_missing_witness:
  "thrown (webhook ''XenditPlugin'' unconfigured_services (Some ''xyz'') (Some scenario_body)) =
     Some (InternalServerError ''[XenditPlugin] Could not find Xendit PaymentMethod'')
   \<and> trace (webhook ''XenditPlugin'' unconfigured_services (Some ''xyz'')
              (Some scenario_body)) =
       [VerifyCallback ''xyz'', ConsoleLogToken ''xyz'', ConsoleLogPayment scenario_body,
        CreateContext (createContextInput ''tenant1''), FindOneByCode ''tenant1'' ''ORD123'',
        TransitionToState ''tenant1'' ''55'' ''ArrangingPayment'',
        FindPaymentMethods ''tenant1'']"
proof -
  have h1: "''xyz'' \<noteq> []"
    by simp
  have h2: "xenditService_verifyCallback unconfigured_services (Some ''xyz'') =
      Inr (JBoolean False)"
    by (simp add: unconfigured_services_def scenario_defs verifyCallback_def
          configuredTokenLength_def configuredToken_def)
  have h3: "createContext unconfigured_services
      (hd (split CHR ''_'' (description scenario_body))) = Inr ''tenant1''"
    by (simp add: unconfigured_services_def scenario_defs)
  have h4: "orderService_findOneByCode unconfigured_services ''tenant1''
      (external_id scenario_body) = Inr (Some scenario_order)"
    by (simp add: unconfigured_services_def scenario_defs)
  have h5: "order_state scenario_order = ''ArrangingPayment'' \<or>
      orderService_transitionToState unconfigured_services ''tenant1''
        (order_id scenario_order) ''ArrangingPayment'' =
      Inr (Transitioned (scenario_order\<lparr>order_state := ''ArrangingPayment''\<rparr>))"
    by (simp add: unconfigured_services_def scenario_services_def)
  have h6: "connection_find unconfigured_services ''tenant1'' =
      Inr [\<lparr>method_code = ''standard-payment'', handler_code = ''dummy''\<rparr>]"
    by (simp add: unconfigured_services_def)
  have h7: "\<forall>m \<in> set [\<lparr>method_code = ''standard-payment'', handler_code = ''dummy''\<rparr>].
      handler_code m \<noteq> xenditPaymentMethodHandler_code"
    by (simp add: xenditPaymentMethodHandler_code_def)
  have fields: "hd (split CHR ''_'' (description scenario_body)) = ''tenant1''"
    "external_id scenario_body = ''ORD123''" "order_id scenario_order = ''55''"
    "order_state scenario_order \<noteq> ''ArrangingPayment''"
    by (simp_all add: scenario_body_def scenario_order_def)
  from webhook_payment_method_missing [OF h1 h2 h3 h4 h5 h6 h7, of "''XenditPlugin''"]
  show ?thesis
    by (simp add: fields)
qed

section \<open>Properties of refund creation\<close>

text \<open>
  C9, as amended. For every input, \<^verbatim>\<open>XenditService.createRefund\<close> returns nothing
  (\<^verbatim>\<open>undefined\<close>). The payment method handler's \<^verbatim>\<open>createRefund\<close> does return a result to
  its caller: state \<^verbatim>\<open>Settled\<close> and the transaction id of the payment.
\<close>

theorem createRefund_results:
  "createRefund paymentIntentId refundAmount = JUndefined
   \<and> handler_createRefund ctx input handlerAmount order payment args =
       \<lparr>refund_state = Settled, refund_transactionId = payment_transactionId payment\<rparr>"
  by (simp add: createRefund_def handler_createRefund_def)

text \<open>
  C9 as stated fails for the handler: for a payment with transaction id \<^verbatim>\<open>inv-1\<close> it
  reports the refund as \<^verbatim>\<open>Settled\<close>.
\<close>

theorem handler_createRefund_settled_counterexample:
  "refund_state
     (handler_createRefund ''tenant1'' ''refund'' 150000 scenario_order
        \<lparr>payment_transactionId = ''inv-1''\<rparr> ''args'') = Settled"
  by (simp add: handler_createRefund_def)

end
